theory Spec2Isabelle
  imports Complex_Main "HOL-Library.Log_Nat"
begin

section \<open>JavaScript values\<close>

text \<open>
  The spreadsheet editor, the Excel import and the stock analytics are TypeScript that
  runs on JavaScript values. A JavaScript number is an IEEE 754 binary64 value: a finite
  value (a rational; the two zeros are identified, both are falsy and compare equal), one
  of the two infinities, or NaN.
\<close>

datatype jsnum = Fin rat | NaN | PosInf | NegInf

datatype jsval = JUndefined | JNull | JBool bool | JNum jsnum | JStr string

text \<open>The relational operators on numbers: every comparison with NaN is false.\<close>

fun jlt :: "jsnum \<Rightarrow> jsnum \<Rightarrow> bool" where
  "jlt NaN _ = False"
| "jlt _ NaN = False"
| "jlt (Fin a) (Fin b) = (a < b)"
| "jlt (Fin _) PosInf = True"
| "jlt (Fin _) NegInf = False"
| "jlt PosInf _ = False"
| "jlt NegInf NegInf = False"
| "jlt NegInf _ = True"

definition jgt :: "jsnum \<Rightarrow> jsnum \<Rightarrow> bool" where
  "jgt a b = jlt b a"

definition jge :: "jsnum \<Rightarrow> jsnum \<Rightarrow> bool" where
  "jge a b = (a \<noteq> NaN \<and> b \<noteq> NaN \<and> \<not> jlt a b)"

definition jle :: "jsnum \<Rightarrow> jsnum \<Rightarrow> bool" where
  "jle a b = jge b a"

definition isNaN :: "jsnum \<Rightarrow> bool" where
  "isNaN n = (n = NaN)"

subsection \<open>Rounding to binary64\<close>

text \<open>
  The value of a numeric string is the exact decimal value rounded to the nearest
  binary64 value, ties to even; it overflows to an infinity and underflows to zero.
\<close>

definition floor_log2 :: "rat \<Rightarrow> int" where
  "floor_log2 a = (if 1 \<le> a then bitlen \<lfloor>a\<rfloor> - 1 else - bitlen (\<lceil>1 / a\<rceil> - 1))"

definition pow2 :: "int \<Rightarrow> rat" where
  "pow2 e = (if 0 \<le> e then 2 ^ nat e else 1 / 2 ^ nat (- e))"

definition roundTiesToEven :: "rat \<Rightarrow> int" where
  "roundTiesToEven x =
     (let f = \<lfloor>x\<rfloor>; d = x - of_int f
      in if d < 1 / 2 then f else if 1 / 2 < d then f + 1 else if even f then f else f + 1)"

definition round64 :: "rat \<Rightarrow> jsnum" where
  "round64 q =
     (if q = 0 then Fin 0
      else let a = \<bar>q\<bar>;
               e = max (floor_log2 a) (- 1022);
               ulp = pow2 (e - 52);
               r = of_int (roundTiesToEven (a / ulp)) * ulp
           in if pow2 1024 \<le> r then (if 0 < q then PosInf else NegInf)
              else Fin (if 0 < q then r else - r))"

subsection \<open>Number(string)\<close>

text \<open>
  \<open>StringToNumber\<close> follows the StringNumericLiteral grammar of ECMAScript: white space
  and line terminators are trimmed from both ends, the empty string is 0, a literal is
  a signed decimal literal (with optional fraction and exponent, or \<open>Infinity\<close>) or an
  unsigned binary, octal or hexadecimal integer literal, and anything else is NaN.
  A \<open>char\<close> is a code unit below 256, so the white space characters are those of
  Latin-1: TAB, LF, VT, FF, CR, SP and NBSP.
\<close>

definition isStrWhiteSpaceChar :: "char \<Rightarrow> bool" where
  "isStrWhiteSpaceChar c = ((of_char c :: nat) \<in> {9, 10, 11, 12, 13, 32, 160})"

definition trim :: "string \<Rightarrow> string" where
  "trim s = rev (dropWhile isStrWhiteSpaceChar (rev (dropWhile isStrWhiteSpaceChar s)))"

definition digitValue :: "char \<Rightarrow> nat" where
  "digitValue c =
     (let n = (of_char c :: nat)
      in if 48 \<le> n \<and> n \<le> 57 then n - 48
         else if 97 \<le> n \<and> n \<le> 102 then n - 87
         else if 65 \<le> n \<and> n \<le> 70 then n - 55
         else 16)"

definition isDigitOf :: "nat \<Rightarrow> char \<Rightarrow> bool" where
  "isDigitOf base c = (digitValue c < base)"

definition digitsValue :: "nat \<Rightarrow> string \<Rightarrow> int" where
  "digitsValue base ds = foldl (\<lambda>a c. a * int base + int (digitValue c)) 0 ds"

definition isDigits :: "nat \<Rightarrow> string \<Rightarrow> bool" where
  "isDigits base ds = (ds \<noteq> [] \<and> list_all (isDigitOf base) ds)"

definition SignedInteger :: "string \<Rightarrow> int option" where
  "SignedInteger t =
     (case t of
        c # ds \<Rightarrow>
          if c = CHR ''+'' then (if isDigits 10 ds then Some (digitsValue 10 ds) else None)
          else if c = CHR ''-'' then (if isDigits 10 ds then Some (- digitsValue 10 ds) else None)
          else (if isDigits 10 t then Some (digitsValue 10 t) else None)
      | [] \<Rightarrow> None)"

definition isExponentIndicator :: "char \<Rightarrow> bool" where
  "isExponentIndicator c = (c = CHR ''e'' \<or> c = CHR ''E'')"

definition Mantissa :: "string \<Rightarrow> rat option" where
  "Mantissa m =
     (let ip = takeWhile (\<lambda>c. c \<noteq> CHR ''.'') m;
          rest = dropWhile (\<lambda>c. c \<noteq> CHR ''.'') m
      in if rest = [] then (if isDigits 10 ip then Some (of_int (digitsValue 10 ip)) else None)
         else let fp = tl rest
              in if list_all (isDigitOf 10) ip \<and> list_all (isDigitOf 10) fp \<and> (ip \<noteq> [] \<or> fp \<noteq> [])
                 then Some (of_int (digitsValue 10 (ip @ fp)) / 10 ^ length fp)
                 else None)"

definition StrUnsignedDecimalLiteral :: "string \<Rightarrow> jsnum" where
  "StrUnsignedDecimalLiteral u =
     (if u = ''Infinity'' then PosInf
      else let m = takeWhile (\<lambda>c. \<not> isExponentIndicator c) u;
               rest = dropWhile (\<lambda>c. \<not> isExponentIndicator c) u;
               ex = (if rest = [] then Some 0 else SignedInteger (tl rest))
           in case (Mantissa m, ex) of
                (Some q, Some e) \<Rightarrow>
                  round64 (if 0 \<le> e then q * 10 ^ nat e else q / 10 ^ nat (- e))
              | _ \<Rightarrow> NaN)"

definition negate :: "jsnum \<Rightarrow> jsnum" where
  "negate n = (case n of Fin q \<Rightarrow> Fin (- q) | NaN \<Rightarrow> NaN | PosInf \<Rightarrow> NegInf | NegInf \<Rightarrow> PosInf)"

definition NonDecimalIntegerLiteral :: "string \<Rightarrow> jsnum option" where
  "NonDecimalIntegerLiteral t =
     (case t of
        z # p # ds \<Rightarrow>
          if z \<noteq> CHR ''0'' then None
          else if p = CHR ''x'' \<or> p = CHR ''X''
            then Some (if isDigits 16 ds then round64 (of_int (digitsValue 16 ds)) else NaN)
          else if p = CHR ''o'' \<or> p = CHR ''O''
            then Some (if isDigits 8 ds then round64 (of_int (digitsValue 8 ds)) else NaN)
          else if p = CHR ''b'' \<or> p = CHR ''B''
            then Some (if isDigits 2 ds then round64 (of_int (digitsValue 2 ds)) else NaN)
          else None
      | _ \<Rightarrow> None)"

definition StringToNumber :: "string \<Rightarrow> jsnum" where
  "StringToNumber s =
     (let t = trim s
      in if t = [] then Fin 0
         else case NonDecimalIntegerLiteral t of
                Some n \<Rightarrow> n
              | None \<Rightarrow>
                  (case t of
                     c # u \<Rightarrow>
                       if c = CHR ''+'' then StrUnsignedDecimalLiteral u
                       else if c = CHR ''-'' then negate (StrUnsignedDecimalLiteral u)
                       else StrUnsignedDecimalLiteral t
                   | [] \<Rightarrow> Fin 0))"

text \<open>\<open>Number(v)\<close> on a value, the truthiness of a value, and the operator \<open>||\<close>.\<close>

fun Number :: "jsval \<Rightarrow> jsnum" where
  "Number JUndefined = NaN"
| "Number JNull = Fin 0"
| "Number (JBool b) = (if b then Fin 1 else Fin 0)"
| "Number (JNum n) = n"
| "Number (JStr s) = StringToNumber s"

fun truthy :: "jsval \<Rightarrow> bool" where
  "truthy JUndefined = False"
| "truthy JNull = False"
| "truthy (JBool b) = b"
| "truthy (JNum n) = (n \<noteq> Fin 0 \<and> n \<noteq> NaN)"
| "truthy (JStr s) = (s \<noteq> [])"

definition or_else :: "jsval \<Rightarrow> jsval \<Rightarrow> jsval" where
  "or_else a b = (if truthy a then a else b)"

section \<open>Stock status\<close>

datatype StockStatus = bajo | correcto | alto

definition getStockStatus :: "jsnum \<Rightarrow> jsnum \<Rightarrow> jsnum \<Rightarrow> StockStatus" where
  "getStockStatus stockActual stockMinimo stockMaximo =
     (if jlt stockActual stockMinimo then bajo
      else if jge stockActual stockMaximo then alto
      else correcto)"

section \<open>The editable spreadsheet\<close>

text \<open>
  \<open>CellValue = string | number | null\<close> is a \<open>jsval\<close>; \<open>Row.cells\<close> is a
  \<open>Record<string, CellValue>\<close>, a map from column ids to cell values; the optional
  \<open>selected\<close> flag is \<open>None\<close> while it is undefined.
\<close>

datatype ColumnType = TextT | NumberT

record Column =
  col_id :: string
  col_name :: string
  col_type :: ColumnType

record Row =
  row_id :: string
  cells :: "string \<rightharpoonup> jsval"
  selected :: "bool option"

record DynamicSheet =
  sheet_id :: string
  sheet_name :: string
  columns :: "Column list"
  rows :: "Row list"

text \<open>
  The component state that the operations read and write: the sheet list and the id of
  the active sheet. Every operation of the component works on the active sheet.
\<close>

record editor =
  sheets :: "DynamicSheet list"
  activeSheetId :: string

text \<open>
  Reading a property of \<open>undefined\<close> throws a TypeError. State updates that were
  issued before the throw stay in effect, so the error carries the state it leaves.
\<close>

datatype error = TypeError

type_synonym outcome = "error \<times> editor + editor"

text \<open>Decimal digits of a natural number, as a template literal prints \<open>Date.now()\<close>
  and \<open>length + 1\<close>.\<close>

fun toString_nat :: "nat \<Rightarrow> string" where
  "toString_nat n =
     (if n < 10 then [char_of (48 + n)]
      else toString_nat (n div 10) @ [char_of (48 + n mod 10)])"

declare toString_nat.simps [simp del]

text \<open>\<open>Array.prototype.findIndex\<close>: the first index that satisfies the predicate,
  or -1.\<close>

fun findIndex :: "('a \<Rightarrow> bool) \<Rightarrow> 'a list \<Rightarrow> int" where
  "findIndex P [] = - 1"
| "findIndex P (x # xs) =
     (if P x then 0 else (let i = findIndex P xs in if i < 0 then - 1 else i + 1))"

text \<open>\<open>xs.splice(start, 0, x)\<close> for \<open>0 \<le> start\<close>: a start beyond the end is clamped
  to the length.\<close>

definition splice_insert :: "int \<Rightarrow> 'a \<Rightarrow> 'a list \<Rightarrow> 'a list" where
  "splice_insert start x xs = take (nat start) xs @ [x] @ drop (nat start) xs"

text \<open>\<open>const activeSheet = sheets.find(s => s.id === activeSheetId) || sheets[0]\<close>;
  \<open>None\<close> is \<open>undefined\<close>.\<close>

definition activeSheet :: "editor \<Rightarrow> DynamicSheet option" where
  "activeSheet st =
     (case find (\<lambda>s. sheet_id s = activeSheetId st) (sheets st) of
        Some s \<Rightarrow> Some s
      | None \<Rightarrow> (case sheets st of [] \<Rightarrow> None | s # _ \<Rightarrow> Some s))"

text \<open>\<open>updateSheets(sheets.map(s => s.id === activeSheetId ? f(s) : s))\<close>\<close>

definition updateActive :: "editor \<Rightarrow> (DynamicSheet \<Rightarrow> DynamicSheet) \<Rightarrow> editor" where
  "updateActive st f =
     st\<lparr>sheets := map (\<lambda>s. if sheet_id s = activeSheetId st then f s else s) (sheets st)\<rparr>"




text \<open>\<open>addColumn(afterColumnId?)\<close>; \<open>now\<close> is the value of \<open>Date.now()\<close>. An
  \<open>afterColumnId\<close> that is undefined or the empty string is falsy.\<close>

definition addColumn :: "editor \<Rightarrow> nat \<Rightarrow> string option \<Rightarrow> outcome" where
  "addColumn st now afterColumnId =
     (case activeSheet st of
        None \<Rightarrow> Inl (TypeError, st)
      | Some a \<Rightarrow>
          let newColumn = \<lparr>col_id = ''col-'' @ toString_nat now,
                           col_name = ''Columna '' @ toString_nat (length (columns a) + 1),
                           col_type = TextT\<rparr>;
              newColumns =
                (case afterColumnId of
                   None \<Rightarrow> columns a @ [newColumn]
                 | Some after \<Rightarrow>
                     if after = [] then columns a @ [newColumn]
                     else let idx = findIndex (\<lambda>c. col_id c = after) (columns a)
                          in splice_insert (idx + 1) newColumn (columns a));
              newRows = map (\<lambda>row. row\<lparr>cells := (cells row)(col_id newColumn \<mapsto> JNull)\<rparr>) (rows a)
          in Inr (updateActive st (\<lambda>s. s\<lparr>columns := newColumns, rows := newRows\<rparr>)))"

definition deleteColumn :: "editor \<Rightarrow> string \<Rightarrow> outcome" where
  "deleteColumn st columnId =
     (case activeSheet st of
        None \<Rightarrow> Inl (TypeError, st)
      | Some a \<Rightarrow>
          if length (columns a) \<le> 1 then Inr st
          else let newColumns = filter (\<lambda>c. col_id c \<noteq> columnId) (columns a);
                   newRows = map (\<lambda>row. row\<lparr>cells := (cells row)(columnId := None)\<rparr>) (rows a)
               in Inr (updateActive st (\<lambda>s. s\<lparr>columns := newColumns, rows := newRows\<rparr>)))"




definition updateCell :: "editor \<Rightarrow> string \<Rightarrow> string \<Rightarrow> jsval \<Rightarrow> editor" where
  "updateCell st rowId columnId v =
     updateActive st (\<lambda>s. s\<lparr>rows :=
       map (\<lambda>r. if row_id r = rowId then r\<lparr>cells := (cells r)(columnId \<mapsto> v)\<rparr> else r) (rows s)\<rparr>)"



text \<open>
  The cell input of the table: \<open>onChange\<close> passes
  \<open>col.type === 'number' ? Number(e.target.value) || null : e.target.value\<close> to
  \<open>updateCell(row.id, col.id, _)\<close>.
\<close>

definition cellInputValue :: "Column \<Rightarrow> string \<Rightarrow> jsval" where
  "cellInputValue col input =
     (if col_type col = NumberT then or_else (JNum (Number (JStr input))) JNull else JStr input)"

definition cellOnChange :: "editor \<Rightarrow> Row \<Rightarrow> Column \<Rightarrow> string \<Rightarrow> editor" where
  "cellOnChange st row col input = updateCell st (row_id row) (col_id col) (cellInputValue col input)"

section \<open>Excel import\<close>

text \<open>
  \<open>parseExcelFile\<close> reads, for every sheet name of the workbook, the table that
  \<open>XLSX.utils.sheet_to_json(worksheet, {header: 1})\<close> returns: a list of rows, the
  first row being the header. The model takes the workbook as the list of sheet names
  with their tables. \<open>generateId()\<close> draws a random UUID; \<open>uuid k\<close> is the k-th UUID
  drawn during the import.

  A row is a JavaScript array that can have holes: \<open>sheet_to_json\<close> assigns no element
  for a blank cell that is followed by a filled one. \<open>None\<close> is a hole. Reading a hole
  by index gives \<open>undefined\<close>, while \<open>map\<close> and \<open>forEach\<close> skip it (\<open>map\<close> keeps the
  hole in its result).
\<close>

type_synonym jsarray = "jsval option list"

text \<open>\<open>rowArray[idx]\<close>: reading a hole, or past the end of an array, gives
  \<open>undefined\<close>.\<close>

definition element :: "jsarray \<Rightarrow> nat \<Rightarrow> jsval" where
  "element rowArray idx =
     (if idx < length rowArray
      then (case rowArray ! idx of None \<Rightarrow> JUndefined | Some v \<Rightarrow> v)
      else JUndefined)"

text \<open>The loop \<open>for (let i = 0; i < Math.min(rawRows.length, 10); i++)\<close> over the rows
  it visits, with its \<open>break\<close>; the state is \<open>(isNumber, hasContent)\<close>.\<close>

fun detectLoop :: "jsarray list \<Rightarrow> nat \<Rightarrow> bool \<times> bool \<Rightarrow> bool \<times> bool" where
  "detectLoop [] colIndex (isNumber, hasContent) = (isNumber, hasContent)"
| "detectLoop (r # rs) colIndex (isNumber, hasContent) =
     (let val = element r colIndex
      in if val \<noteq> JUndefined \<and> val \<noteq> JNull \<and> val \<noteq> JStr []
         then (if isNaN (Number val) then (False, True)
               else detectLoop rs colIndex (isNumber, True))
         else detectLoop rs colIndex (isNumber, hasContent))"

definition detectColumnType :: "jsarray list \<Rightarrow> nat \<Rightarrow> ColumnType" where
  "detectColumnType rawRows colIndex =
     (case detectLoop (take (min (length rawRows) 10) rawRows) colIndex (True, False) of
        (isNumber, hasContent) \<Rightarrow> if hasContent \<and> isNumber then NumberT else TextT)"

text \<open>
  The function is declared to return \<open>DynamicSheet[]\<close>, but the values it builds can
  leave that type, so its result has records of its own. The cast of the header row to
  \<open>string[]\<close> changes nothing at run time: the name of a column is
  \<open>header || 'Sin t\'itulo'\<close>, the header cell itself whenever that is truthy (a number or
  a boolean as it stands). And \<open>columns\<close> is the result of \<open>headers.map\<close>, an array with
  the holes of the header row: for a hole no column is built and no UUID is drawn.
\<close>

record ImportedColumn =
  icol_id :: string
  icol_name :: jsval
  icol_type :: ColumnType

record ImportedSheet =
  isheet_id :: string
  isheet_name :: string
  icolumns :: "ImportedColumn option list"
  irows :: "Row list"

definition sinTitulo :: string where
  "sinTitulo = ''Sin t'' @ [char_of (237 :: nat)] @ ''tulo''"

text \<open>\<open>headers.map((header, colIndex) => ...)\<close> from index \<open>colIndex\<close> on, \<open>n\<close> UUIDs
  having been drawn.\<close>

fun importColumns ::
  "(nat \<Rightarrow> string) \<Rightarrow> nat \<Rightarrow> jsarray \<Rightarrow> nat \<Rightarrow> jsarray list \<Rightarrow> ImportedColumn option list" where
  "importColumns uuid n [] colIndex rawRows = []"
| "importColumns uuid n (None # headers) colIndex rawRows =
     None # importColumns uuid n headers (Suc colIndex) rawRows"
| "importColumns uuid n (Some header # headers) colIndex rawRows =
     Some \<lparr>icol_id = ''col-'' @ uuid n,
           icol_name = or_else header (JStr sinTitulo),
           icol_type = detectColumnType rawRows colIndex\<rparr>
       # importColumns uuid (Suc n) headers (Suc colIndex) rawRows"

text \<open>The value stored for one source value. \<open>String(value)\<close> is reached for a
  boolean only: strings and numbers are stored as they are, null and undefined take
  the last branch.\<close>

definition importCell :: "ImportedColumn \<Rightarrow> jsval \<Rightarrow> jsval" where
  "importCell col v =
     (if icol_type col = NumberT \<and> v \<noteq> JNull \<and> v \<noteq> JUndefined then JNum (Number v)
      else if v \<noteq> JUndefined \<and> v \<noteq> JNull
        then (case v of
                JStr _ \<Rightarrow> v
              | JNum _ \<Rightarrow> v
              | JBool b \<Rightarrow> JStr (if b then ''true'' else ''false'')
              | JNull \<Rightarrow> JStr ''null''
              | JUndefined \<Rightarrow> JStr ''undefined'')
      else JNull)"

text \<open>\<open>columns.forEach((col, idx) => ...)\<close> on an empty \<open>cells\<close> object: holes are
  skipped, \<open>idx\<close> is the index in the array.\<close>

definition importCells :: "ImportedColumn option list \<Rightarrow> jsarray \<Rightarrow> (string \<rightharpoonup> jsval)" where
  "importCells cols rowArray =
     fold (\<lambda>(c, idx) cs.
             case c of
               None \<Rightarrow> cs
             | Some col \<Rightarrow> cs(icol_id col \<mapsto> importCell col (element rowArray idx)))
          (zip cols [0..<length cols]) Map.empty"

definition importRows ::
  "(nat \<Rightarrow> string) \<Rightarrow> nat \<Rightarrow> ImportedColumn option list \<Rightarrow> jsarray list \<Rightarrow> Row list" where
  "importRows uuid n cols rawRows =
     map (\<lambda>(rowArray, j).
            \<lparr>row_id = ''row-'' @ uuid (n + j), cells = importCells cols rowArray, selected = None\<rparr>)
         (zip rawRows [0..<length rawRows])"

text \<open>One sheet of the workbook; the result is the sheet pushed, if any, and the number
  of UUIDs drawn so far: one for every header cell that is not a hole, then one for
  every data row, then one for the sheet.\<close>

definition parseSheet ::
  "(nat \<Rightarrow> string) \<Rightarrow> nat \<Rightarrow> string \<Rightarrow> jsarray list \<Rightarrow> ImportedSheet option \<times> nat" where
  "parseSheet uuid n sheetName jsonData =
     (case jsonData of
        [] \<Rightarrow> (None, n)
      | headers # rawRows \<Rightarrow>
          let cols = importColumns uuid n headers 0 rawRows;
              n1 = n + length (filter (\<lambda>h. h \<noteq> None) headers);
              rws = importRows uuid n1 cols rawRows;
              n2 = n1 + length rawRows
          in (Some \<lparr>isheet_id = ''sheet-'' @ uuid n2, isheet_name = sheetName,
                     icolumns = cols, irows = rws\<rparr>, n2 + 1))"

fun parseSheets ::
  "(nat \<Rightarrow> string) \<Rightarrow> nat \<Rightarrow> (string \<times> jsarray list) list \<Rightarrow> ImportedSheet list" where
  "parseSheets uuid n [] = []"
| "parseSheets uuid n ((sheetName, jsonData) # rest) =
     (case parseSheet uuid n sheetName jsonData of
        (None, n') \<Rightarrow> parseSheets uuid n' rest
      | (Some sh, n') \<Rightarrow> sh # parseSheets uuid n' rest)"

definition parseExcelFile :: "(nat \<Rightarrow> string) \<Rightarrow> (string \<times> jsarray list) list \<Rightarrow> ImportedSheet list" where
  "parseExcelFile uuid workbook = parseSheets uuid 0 workbook"

section \<open>Dashboard analytics\<close>

text \<open>
  The dashboard flattens the first sheet into one object per row, keyed by column name,
  and counts the rows by stock level. An object is a map from property names to values;
  a property can be present with the value \<open>undefined\<close>. Only the counters are
  modelled; the floating-point sums (total stock, mean cost, inventory value) are not.
\<close>

type_synonym jsobject = "string \<rightharpoonup> jsval"

definition getProp :: "jsobject \<Rightarrow> string \<Rightarrow> jsval" where
  "getProp obj k = (case obj k of None \<Rightarrow> JUndefined | Some v \<Rightarrow> v)"

definition rowObject :: "Column list \<Rightarrow> Row \<Rightarrow> jsobject" where
  "rowObject cols row =
     (fold (\<lambda>col obj. obj(col_name col \<mapsto> getProp (cells row) (col_id col))) cols Map.empty)
       (''_selected'' \<mapsto> (case selected row of None \<Rightarrow> JUndefined | Some b \<Rightarrow> JBool b))"

definition getSpreadsheetDataForAI :: "DynamicSheet list \<Rightarrow> jsobject list" where
  "getSpreadsheetDataForAI spreadsheetData =
     (case spreadsheetData of
        [] \<Rightarrow> []
      | active # _ \<Rightarrow> map (rowObject (columns active)) (rows active))"

text \<open>\<open>Number(row['Stock Actual'] || row['stock_actual'] || row['Stock'] || 0)\<close>\<close>

definition stockOf :: "jsobject \<Rightarrow> jsnum" where
  "stockOf row =
     Number (or_else (or_else (or_else (getProp row ''Stock Actual'') (getProp row ''stock_actual''))
                              (getProp row ''Stock''))
                     (JNum (Fin 0)))"

record StockCalculation =
  total_productos :: nat
  productos_bajo_stock :: nat
  productos_stock_correcto :: nat
  productos_alto_stock :: nat

datatype calcError = NoData | NoStockColumn

definition hasStockColumn :: "jsobject list \<Rightarrow> bool" where
  "hasStockColumn data =
     list_ex (\<lambda>row. row ''Stock Actual'' \<noteq> None \<or> row ''stock_actual'' \<noteq> None \<or> row ''Stock'' \<noteq> None)
             data"

definition handleCalculate :: "DynamicSheet list \<Rightarrow> jsnum \<Rightarrow> jsnum \<Rightarrow> calcError + StockCalculation" where
  "handleCalculate spreadsheetData stockMinimo stockMaximo =
     (let data = getSpreadsheetDataForAI spreadsheetData
      in if length data = 0 then Inl NoData
         else if \<not> hasStockColumn data then Inl NoStockColumn
         else Inr \<lparr>total_productos = length data,
                   productos_bajo_stock =
                     length (filter (\<lambda>row. jlt (stockOf row) stockMinimo) data),
                   productos_stock_correcto =
                     length (filter (\<lambda>row. jge (stockOf row) stockMinimo \<and> jle (stockOf row) stockMaximo) data),
                   productos_alto_stock =
                     length (filter (\<lambda>row. jgt (stockOf row) stockMaximo) data)\<rparr>)"

text \<open>The KPI cards: thresholds held by a row take precedence over the configured
  ones.\<close>

definition stockMinimoKey :: string where
  "stockMinimoKey = ''Stock M'' @ [char_of (237 :: nat)] @ ''nimo''"

definition stockMaximoKey :: string where
  "stockMaximoKey = ''Stock M'' @ [char_of (225 :: nat)] @ ''ximo''"

record KPIs =
  totalProducts :: nat
  criticalProducts :: nat
  healthyProducts :: nat
  excessProducts :: nat

definition kpiStep :: "jsnum \<Rightarrow> jsnum \<Rightarrow> jsobject \<Rightarrow> KPIs \<Rightarrow> KPIs" where
  "kpiStep stockMinimo stockMaximo item k =
     (let stock = stockOf item;
          minStock = Number (or_else (or_else (getProp item stockMinimoKey) (getProp item ''stock_minimo''))
                                     (JNum stockMinimo));
          maxStock = Number (or_else (or_else (getProp item stockMaximoKey) (getProp item ''stock_maximo''))
                                     (JNum stockMaximo))
      in if jlt stock minStock then k\<lparr>criticalProducts := criticalProducts k + 1\<rparr>
         else if jgt stock maxStock then k\<lparr>excessProducts := excessProducts k + 1\<rparr>
         else k\<lparr>healthyProducts := healthyProducts k + 1\<rparr>)"

definition KPICards :: "jsobject list \<Rightarrow> jsnum \<Rightarrow> jsnum \<Rightarrow> KPIs" where
  "KPICards data stockMinimo stockMaximo =
     (if length data = 0
      then \<lparr>totalProducts = 0, criticalProducts = 0, healthyProducts = 0, excessProducts = 0\<rparr>
      else fold (kpiStep stockMinimo stockMaximo) data
             \<lparr>totalProducts = length data, criticalProducts = 0, healthyProducts = 0,
              excessProducts = 0\<rparr>)"

section \<open>Example data\<close>

text \<open>A one-sheet workbook with two of the default inventory columns and one row.\<close>

abbreviation exampleSheet :: DynamicSheet where
  "exampleSheet \<equiv>
     \<lparr>sheet_id = ''month-1'', sheet_name = ''Enero'',
      columns = [\<lparr>col_id = ''nombre'', col_name = ''Producto'', col_type = TextT\<rparr>,
                 \<lparr>col_id = ''stock_actual'', col_name = ''Stock Actual'', col_type = NumberT\<rparr>],
      rows = [\<lparr>row_id = ''row-1'',
               cells = [''nombre'' \<mapsto> JStr ''A'', ''stock_actual'' \<mapsto> JNum (Fin 100)],
               selected = None\<rparr>]\<rparr>"

abbreviation exampleEditor :: editor where
  "exampleEditor \<equiv> \<lparr>sheets = [exampleSheet], activeSheetId = ''month-1''\<rparr>"




section \<open>Stock classification\<close>

lemma jge_trans_not_lt: "jle mn mx \<Longrightarrow> jge s mx \<Longrightarrow> \<not> jlt s mn"
  by (cases s; cases mn; cases mx; simp add: jge_def jle_def)

text \<open>
  C3 (as the code has it). \<open>getStockStatus\<close> tests \<open>stock < minimum\<close> first: it returns
  Low (\<open>bajo\<close>) exactly when \<open>stock < minimum\<close>, High (\<open>alto\<close>) exactly when
  \<open>stock >= maximum\<close> and \<open>stock\<close> is not below \<open>minimum\<close>, and Correct otherwise. When
  \<open>minimum <= maximum\<close> the second condition is just \<open>stock >= maximum\<close>. With minimum 10
  and maximum 100: 10 is Correct, 9 is Low, 100 is High, 99 is Correct.
\<close>

theorem getStockStatus_boundaries:
  "(getStockStatus s mn mx = bajo) = jlt s mn \<and>
   (getStockStatus s mn mx = alto) = (jge s mx \<and> \<not> jlt s mn) \<and>
   (getStockStatus s mn mx = correcto) = (\<not> jlt s mn \<and> \<not> jge s mx) \<and>
   (jle mn mx \<longrightarrow> (getStockStatus s mn mx = alto) = jge s mx) \<and>
   getStockStatus (Fin 10) (Fin 10) (Fin 100) = correcto \<and>
   getStockStatus (Fin 9) (Fin 10) (Fin 100) = bajo \<and>
   getStockStatus (Fin 100) (Fin 10) (Fin 100) = alto \<and>
   getStockStatus (Fin 99) (Fin 10) (Fin 100) = correcto"
  using jge_trans_not_lt [of mn mx s]
  by (auto simp add: getStockStatus_def jge_def)

theorem getStockStatus_boundaries_witness:
  "jle (Fin 10) (Fin 100) \<and>
   (getStockStatus (Fin 150) (Fin 10) (Fin 100) = alto) = jge (Fin 150) (Fin 100)"
  using getStockStatus_boundaries [of "Fin 150" "Fin 10" "Fin 100"]
  by (simp add: jle_def jge_def)

text \<open>
  C3 as stated fails when the thresholds are crossed: with minimum 100 and maximum 10,
  a stock of 50 is at least the maximum, and the status is not High (it is Low).
\<close>

theorem getStockStatus_alto_counterexample:
  "jge (Fin 50) (Fin 10) \<and> getStockStatus (Fin 50) (Fin 100) (Fin 10) \<noteq> alto"
  by (simp add: getStockStatus_def jge_def)

section \<open>Structural operations of the editor\<close>

lemma toString_nat_7: "toString_nat 7 = ''7''"
  by code_simp


lemma in_splice_insert: "x \<in> set (splice_insert i x xs)"
  by (simp add: splice_insert_def)



text \<open>
  C1. When \<open>addColumn\<close> returns, every sheet that carries the active id holds the new
  column in its column list, every one of its rows maps the new column id to null, and
  its rows are the rows of the active sheet, in order. When \<open>deleteColumn\<close> removes a
  column (the active sheet has more than one), every sheet that carries the active id
  has no column with that id left, none of its rows has the key, and its rows are the
  rows of the active sheet, in order. Both changes arrive in one returned state.
\<close>

theorem column_add_delete_sync:
  "(addColumn st now after = Inr st' \<and> sh \<in> set (sheets st') \<and> sheet_id sh = activeSheetId st \<longrightarrow>
      (\<exists>c \<in> set (columns sh). col_id c = ''col-'' @ toString_nat now) \<and>
      (\<forall>r \<in> set (rows sh). cells r (''col-'' @ toString_nat now) = Some JNull) \<and>
      (\<forall>a. activeSheet st = Some a \<longrightarrow> map row_id (rows sh) = map row_id (rows a))) \<and>
   (deleteColumn st columnId = Inr st' \<and> activeSheet st = Some a \<and> 1 < length (columns a) \<and>
    sh \<in> set (sheets st') \<and> sheet_id sh = activeSheetId st \<longrightarrow>
      (\<forall>c \<in> set (columns sh). col_id c \<noteq> columnId) \<and>
      (\<forall>r \<in> set (rows sh). cells r columnId = None) \<and>
      map row_id (rows sh) = map row_id (rows a))"
proof (intro conjI impI)
  assume h: "addColumn st now after = Inr st' \<and> sh \<in> set (sheets st') \<and> sheet_id sh = activeSheetId st"
  then obtain a where a: "activeSheet st = Some a"
    by (auto simp add: addColumn_def split: option.splits)
  let ?c = "\<lparr>col_id = ''col-'' @ toString_nat now,
             col_name = ''Columna '' @ toString_nat (length (columns a) + 1), col_type = TextT\<rparr>"
  from h a obtain cs where
    st': "st' = updateActive st (\<lambda>s. s\<lparr>columns := cs,
            rows := map (\<lambda>row. row\<lparr>cells := (cells row)(col_id ?c \<mapsto> JNull)\<rparr>) (rows a)\<rparr>)"
    and cs: "?c \<in> set cs"
    by (auto simp add: addColumn_def Let_def in_splice_insert split: option.splits if_splits)
  from h st' have sh: "columns sh = cs"
    "rows sh = map (\<lambda>row. row\<lparr>cells := (cells row)(col_id ?c \<mapsto> JNull)\<rparr>) (rows a)"
    by (auto simp add: updateActive_def split: if_splits)
  show "\<exists>c \<in> set (columns sh). col_id c = ''col-'' @ toString_nat now"
    using cs sh by (intro bexI [of _ ?c]) simp_all
  show "\<forall>r \<in> set (rows sh). cells r (''col-'' @ toString_nat now) = Some JNull"
    using sh by auto
  show "\<forall>a. activeSheet st = Some a \<longrightarrow> map row_id (rows sh) = map row_id (rows a)"
    using sh a by (simp add: comp_def)
next
  assume h: "deleteColumn st columnId = Inr st' \<and> activeSheet st = Some a \<and> 1 < length (columns a) \<and>
    sh \<in> set (sheets st') \<and> sheet_id sh = activeSheetId st"
  then have st': "st' = updateActive st (\<lambda>s. s\<lparr>columns := filter (\<lambda>c. col_id c \<noteq> columnId) (columns a),
            rows := map (\<lambda>row. row\<lparr>cells := (cells row)(columnId := None)\<rparr>) (rows a)\<rparr>)"
    by (auto simp add: deleteColumn_def Let_def)
  with h have sh: "columns sh = filter (\<lambda>c. col_id c \<noteq> columnId) (columns a)"
    "rows sh = map (\<lambda>row. row\<lparr>cells := (cells row)(columnId := None)\<rparr>) (rows a)"
    by (auto simp add: updateActive_def split: if_splits)
  show "\<forall>c \<in> set (columns sh). col_id c \<noteq> columnId" using sh by simp
  show "\<forall>r \<in> set (rows sh). cells r columnId = None" using sh by auto
  show "map row_id (rows sh) = map row_id (rows a)" using sh by (simp add: comp_def)
qed

theorem column_add_delete_sync_witness:
  "(\<exists>st'. addColumn exampleEditor 7 None = Inr st' \<and>
      (\<exists>sh \<in> set (sheets st'). sheet_id sh = ''month-1'' \<and>
         map col_id (columns sh) = [''nombre'', ''stock_actual'', ''col-7''] \<and>
         (\<exists>c \<in> set (columns sh). col_id c = ''col-'' @ toString_nat 7) \<and>
         (\<forall>r \<in> set (rows sh). cells r (''col-'' @ toString_nat 7) = Some JNull) \<and>
         map row_id (rows sh) = [''row-1''])) \<and>
   (\<exists>st'. deleteColumn exampleEditor ''stock_actual'' = Inr st' \<and>
      (\<exists>sh \<in> set (sheets st'). sheet_id sh = ''month-1'' \<and>
         map col_id (columns sh) = [''nombre''] \<and>
         (\<forall>r \<in> set (rows sh). cells r ''stock_actual'' = None) \<and>
         map row_id (rows sh) = [''row-1'']))"
  using column_add_delete_sync [of exampleEditor 7 None _ _ "''stock_actual''" exampleSheet]
  by (simp add: addColumn_def deleteColumn_def activeSheet_def updateActive_def toString_nat_7)



lemma findIndex_none: "\<forall>x \<in> set xs. \<not> P x \<Longrightarrow> findIndex P xs = - 1"
  by (induction xs) simp_all

lemma addColumn_unknown_after:
  assumes "activeSheet st = Some a" "after \<noteq> []" "after \<notin> col_id ` set (columns a)"
    and "addColumn st now (Some after) = Inr st'"
    and "sh \<in> set (sheets st')" "sheet_id sh = activeSheetId st"
  shows "columns sh =
    \<lparr>col_id = ''col-'' @ toString_nat now,
     col_name = ''Columna '' @ toString_nat (length (columns a) + 1), col_type = TextT\<rparr> # columns a"
proof -
  have "findIndex (\<lambda>c. col_id c = after) (columns a) = - 1"
    using assms(3) by (intro findIndex_none) auto
  with assms show ?thesis
    by (auto simp add: addColumn_def Let_def splice_insert_def updateActive_def split: if_splits)
qed




section \<open>Unknown identifiers\<close>













section \<open>Cell input coercion\<close>

lemma StringToNumber_abc: "StringToNumber ''abc'' = NaN"
  by code_simp

lemma StringToNumber_zero: "StringToNumber ''0'' = Fin 0" "StringToNumber ''0.0'' = Fin 0"
  "StringToNumber [] = Fin 0"
  by code_simp+

lemma StringToNumber_50: "StringToNumber ''50'' = Fin 50"
  by code_simp

lemma cellOnChange_stores:
  "sh \<in> set (sheets (cellOnChange st row col input)) \<Longrightarrow> sheet_id sh = activeSheetId st \<Longrightarrow>
   r \<in> set (rows sh) \<Longrightarrow> row_id r = row_id row \<Longrightarrow>
   cells r (col_id col) = Some (cellInputValue col input)"
  by (auto simp add: cellOnChange_def updateCell_def updateActive_def split: if_splits)

text \<open>
  C4. For every string \<open>s\<close> with \<open>Number(s)\<close> NaN, the value that the cell input of a
  number column passes to \<open>updateCell\<close> is null, and after the change every row with the
  edited row's id in a sheet with the active id holds null under the column's id: not
  NaN and not the string. The handler has no failing branch.
\<close>

theorem numeric_coercion_absent:
  "StringToNumber s = NaN \<and> col_type col = NumberT \<longrightarrow>
     cellInputValue col s = JNull \<and>
     (\<forall>sh \<in> set (sheets (cellOnChange st row col s)). sheet_id sh = activeSheetId st \<longrightarrow>
        (\<forall>r \<in> set (rows sh). row_id r = row_id row \<longrightarrow> cells r (col_id col) = Some JNull))"
proof (intro impI)
  assume h: "StringToNumber s = NaN \<and> col_type col = NumberT"
  then have v: "cellInputValue col s = JNull"
    by (simp add: cellInputValue_def or_else_def)
  then show "cellInputValue col s = JNull \<and>
     (\<forall>sh \<in> set (sheets (cellOnChange st row col s)). sheet_id sh = activeSheetId st \<longrightarrow>
        (\<forall>r \<in> set (rows sh). row_id r = row_id row \<longrightarrow> cells r (col_id col) = Some JNull))"
    using cellOnChange_stores [of _ st row col s] by auto
qed

theorem numeric_coercion_absent_witness:
  "StringToNumber ''abc'' = NaN \<and>
   col_type (columns exampleSheet ! 1) = NumberT \<and>
   cellInputValue (columns exampleSheet ! 1) ''abc'' = JNull \<and>
   map (\<lambda>sh. map (\<lambda>r. cells r ''stock_actual'') (rows sh))
     (sheets (cellOnChange exampleEditor (hd (rows exampleSheet)) (columns exampleSheet ! 1) ''abc''))
     = [[Some JNull]]"
  using numeric_coercion_absent [of "''abc''" "columns exampleSheet ! 1" exampleEditor "hd (rows exampleSheet)"]
  by (simp add: StringToNumber_abc cellOnChange_def updateCell_def updateActive_def)

text \<open>
  C10. For a number column, an input whose numeric conversion is 0 (such as \<open>"0"\<close>,
  \<open>"0.0"\<close> or the empty string) is passed on as null, because the handler computes
  \<open>Number(input) || null\<close>, and the edited cell then holds null; for no input at all does
  the handler pass on, or the edited cell hold, the number 0.
\<close>

theorem zero_input_absent:
  "(StringToNumber s = Fin 0 \<and> col_type col = NumberT \<longrightarrow>
      cellInputValue col s = JNull \<and>
      (\<forall>sh \<in> set (sheets (cellOnChange st row col s)). sheet_id sh = activeSheetId st \<longrightarrow>
         (\<forall>r \<in> set (rows sh). row_id r = row_id row \<longrightarrow> cells r (col_id col) = Some JNull))) \<and>
   (col_type col = NumberT \<longrightarrow>
      cellInputValue col s \<noteq> JNum (Fin 0) \<and>
      (\<forall>sh \<in> set (sheets (cellOnChange st row col s)). sheet_id sh = activeSheetId st \<longrightarrow>
         (\<forall>r \<in> set (rows sh). row_id r = row_id row \<longrightarrow> cells r (col_id col) \<noteq> Some (JNum (Fin 0))))) \<and>
   (col_type col = NumberT \<longrightarrow>
      cellInputValue col ''0'' = JNull \<and> cellInputValue col ''0.0'' = JNull \<and>
      cellInputValue col [] = JNull)"
proof (intro conjI impI)
  assume h: "StringToNumber s = Fin 0 \<and> col_type col = NumberT"
  then show "cellInputValue col s = JNull"
    by (simp add: cellInputValue_def or_else_def)
  then show "\<forall>sh \<in> set (sheets (cellOnChange st row col s)). sheet_id sh = activeSheetId st \<longrightarrow>
         (\<forall>r \<in> set (rows sh). row_id r = row_id row \<longrightarrow> cells r (col_id col) = Some JNull)"
    using cellOnChange_stores [of _ st row col s] by auto
next
  assume h: "col_type col = NumberT"
  then show n0: "cellInputValue col s \<noteq> JNum (Fin 0)"
    by (simp add: cellInputValue_def or_else_def)
  then show "\<forall>sh \<in> set (sheets (cellOnChange st row col s)). sheet_id sh = activeSheetId st \<longrightarrow>
         (\<forall>r \<in> set (rows sh). row_id r = row_id row \<longrightarrow> cells r (col_id col) \<noteq> Some (JNum (Fin 0)))"
    using cellOnChange_stores [of _ st row col s] by auto
next
  assume h: "col_type col = NumberT"
  then show "cellInputValue col ''0'' = JNull" "cellInputValue col ''0.0'' = JNull"
    "cellInputValue col [] = JNull"
    by (simp_all add: cellInputValue_def or_else_def StringToNumber_zero)
qed

theorem zero_input_absent_witness:
  "StringToNumber ''0'' = Fin 0 \<and>
   col_type (columns exampleSheet ! 1) = NumberT \<and>
   cellInputValue (columns exampleSheet ! 1) ''0'' = JNull \<and>
   cellInputValue (columns exampleSheet ! 1) ''0'' \<noteq> JNum (Fin 0) \<and>
   map (\<lambda>sh. map (\<lambda>r. cells r ''stock_actual'') (rows sh))
     (sheets (cellOnChange exampleEditor (hd (rows exampleSheet)) (columns exampleSheet ! 1) ''0''))
     = [[Some JNull]]"
  using zero_input_absent [of "''0''" "columns exampleSheet ! 1" exampleEditor "hd (rows exampleSheet)"]
  by (simp add: StringToNumber_zero cellOnChange_def updateCell_def updateActive_def)

section \<open>Aggregate counts at the upper boundary\<close>

text \<open>
  C2 (the code at an input where it departs from the claim). With minimum 10 and
  maximum 100, a row whose stock is 100 is classified High (\<open>alto\<close>) by
  \<open>getStockStatus\<close>, yet \<open>handleCalculate\<close> counts it under \<open>productos_stock_correcto\<close>
  and the KPI cards count it as healthy, not as excess: both counters test
  \<open>stock > maximum\<close> where the classification tests \<open>stock >= maximum\<close>.
\<close>

theorem boundary_counts_disagree:
  "getStockStatus (Fin 100) (Fin 10) (Fin 100) = alto \<and>
   map stockOf (getSpreadsheetDataForAI [exampleSheet]) = [Fin 100] \<and>
   handleCalculate [exampleSheet] (Fin 10) (Fin 100) =
     Inr \<lparr>total_productos = 1, productos_bajo_stock = 0, productos_stock_correcto = 1,
          productos_alto_stock = 0\<rparr> \<and>
   KPICards (getSpreadsheetDataForAI [exampleSheet]) (Fin 10) (Fin 100) =
     \<lparr>totalProducts = 1, criticalProducts = 0, healthyProducts = 1, excessProducts = 0\<rparr>"
  by (simp add: getStockStatus_def jge_def jle_def jgt_def handleCalculate_def
        getSpreadsheetDataForAI_def rowObject_def stockOf_def getProp_def or_else_def
        hasStockColumn_def KPICards_def kpiStep_def stockMinimoKey_def stockMaximoKey_def)

section \<open>Import: type inference\<close>

lemma StringToNumber_letters: "StringToNumber ''A'' = NaN" "StringToNumber ''B'' = NaN"
  by code_simp+

lemma StringToNumber_7: "StringToNumber ''7'' = Fin 7"
  by code_simp


lemma detectLoop_result:
  "detectLoop rs c (isN, hasC) = (n', h') \<Longrightarrow>
   (h' \<and> n') =
     (isN \<and> (hasC \<or> (\<exists>r \<in> set rs. element r c \<notin> {JUndefined, JNull, JStr []})) \<and>
      (\<forall>r \<in> set rs. element r c \<notin> {JUndefined, JNull, JStr []} \<longrightarrow> \<not> isNaN (Number (element r c))))"
proof (induction rs arbitrary: isN hasC n' h')
  case Nil
  then show ?case by auto
next
  case (Cons r rs)
  show ?case
  proof (cases "element r c \<notin> {JUndefined, JNull, JStr []}")
    case False
    with Cons.prems have "detectLoop rs c (isN, hasC) = (n', h')" by (auto simp add: Let_def)
    from Cons.IH [OF this] False show ?thesis by auto
  next
    case True
    show ?thesis
    proof (cases "isNaN (Number (element r c))")
      case True
      with \<open>element r c \<notin> {JUndefined, JNull, JStr []}\<close> Cons.prems show ?thesis
        by (auto simp add: Let_def)
    next
      case False
      with True Cons.prems have "detectLoop rs c (isN, True) = (n', h')" by (simp add: Let_def)
      from Cons.IH [OF this] True False show ?thesis by simp
    qed
  qed
qed

lemma detectColumnType_iff:
  "(detectColumnType rawRows c = NumberT) =
     ((\<exists>r \<in> set (take 10 rawRows). element r c \<notin> {JUndefined, JNull, JStr []}) \<and>
      (\<forall>r \<in> set (take 10 rawRows). element r c \<notin> {JUndefined, JNull, JStr []} \<longrightarrow>
          \<not> isNaN (Number (element r c))))"
proof -
  have t: "take (min (length rawRows) 10) rawRows = take 10 rawRows"
    by (simp add: min_def)
  obtain n' h' where d: "detectLoop (take 10 rawRows) c (True, False) = (n', h')"
    by (cases "detectLoop (take 10 rawRows) c (True, False)") auto
  from detectLoop_result [OF d] d t show ?thesis
    by (simp add: detectColumnType_def)
qed

lemma detectColumnType_take: "detectColumnType rawRows c = detectColumnType (take 10 rawRows) c"
  by (simp add: detectColumnType_def min_def)

lemma importColumns_kinds:
  "map (map_option (\<lambda>col. (icol_name col, icol_type col))) (importColumns uuid n headers k rawRows) =
   map (\<lambda>(h, c). map_option (\<lambda>v. (or_else v (JStr sinTitulo), detectColumnType rawRows c)) h)
       (zip headers [k..<k + length headers])"
proof (induction headers arbitrary: n k)
  case Nil
  then show ?case by simp
next
  case (Cons h hs)
  have u: "[k..<Suc (k + length hs)] = k # [Suc k..<Suc (k + length hs)]"
    by (rule upt_conv_Cons) simp
  show ?case
    by (cases h) (simp_all add: u Cons.IH del: upt_Suc)
qed

lemma parseSheets_kinds:
  "map (\<lambda>sh. (isheet_name sh, map (map_option (\<lambda>col. (icol_name col, icol_type col))) (icolumns sh)))
     (parseSheets uuid n workbook) =
   map (\<lambda>(sheetName, jsonData).
          (sheetName,
           map (\<lambda>(h, c). map_option (\<lambda>v. (or_else v (JStr sinTitulo), detectColumnType (tl jsonData) c)) h)
               (zip (hd jsonData) [0..<length (hd jsonData)])))
       (filter (\<lambda>(sheetName, jsonData). jsonData \<noteq> []) workbook)"
proof (induction workbook arbitrary: n)
  case Nil
  then show ?case by simp
next
  case (Cons w ws)
  obtain sheetName jsonData where w: "w = (sheetName, jsonData)" by (cases w)
  show ?case
  proof (cases jsonData)
    case Nil
    with w Cons.IH show ?thesis by (simp add: parseSheet_def)
  next
    case (Cons headers rawRows)
    with w Cons.IH importColumns_kinds [of uuid n headers 0 rawRows] show ?thesis
      by (simp add: parseSheet_def Let_def)
  qed
qed

text \<open>
  C6. The inferred kind of a column depends on the first 10 data rows only, and it is
  Number exactly when some cell of the column in those rows is non-empty (not
  undefined, null or the empty string) and every non-empty one converts to a number
  (\<open>Number\<close> of it is not NaN); otherwise it is Text. Every imported sheet carries these
  kinds: the sheets of the result are those of the tables that have a header row, in
  order, and the column built for a header cell at index \<open>c\<close> has the kind inferred for
  \<open>c\<close> from the data rows of its table (a hole in the header row builds no column).
  Importing the table \<open>[["Producto","Stock"],["A","50"],["B","abc"]]\<close> gives one sheet
  with the columns Producto:Text and Stock:Text.
\<close>

theorem import_type_inference:
  "detectColumnType rawRows c = detectColumnType (take 10 rawRows) c \<and>
   (detectColumnType rawRows c = NumberT) =
     ((\<exists>r \<in> set (take 10 rawRows). element r c \<notin> {JUndefined, JNull, JStr []}) \<and>
      (\<forall>r \<in> set (take 10 rawRows). element r c \<notin> {JUndefined, JNull, JStr []} \<longrightarrow>
          \<not> isNaN (Number (element r c)))) \<and>
   (detectColumnType rawRows c = TextT) =
     (\<not> ((\<exists>r \<in> set (take 10 rawRows). element r c \<notin> {JUndefined, JNull, JStr []}) \<and>
         (\<forall>r \<in> set (take 10 rawRows). element r c \<notin> {JUndefined, JNull, JStr []} \<longrightarrow>
             \<not> isNaN (Number (element r c))))) \<and>
   map (\<lambda>sh. (isheet_name sh, map (map_option (\<lambda>col. (icol_name col, icol_type col))) (icolumns sh)))
     (parseExcelFile uuid workbook) =
   map (\<lambda>(sheetName, jsonData).
          (sheetName,
           map (\<lambda>(h, c). map_option (\<lambda>v. (or_else v (JStr sinTitulo), detectColumnType (tl jsonData) c)) h)
               (zip (hd jsonData) [0..<length (hd jsonData)])))
       (filter (\<lambda>(sheetName, jsonData). jsonData \<noteq> []) workbook) \<and>
   map (\<lambda>sh. map (map_option (\<lambda>col. (icol_name col, icol_type col))) (icolumns sh))
     (parseExcelFile uuid
        [(''Hoja1'', [[Some (JStr ''Producto''), Some (JStr ''Stock'')],
                     [Some (JStr ''A''), Some (JStr ''50'')],
                     [Some (JStr ''B''), Some (JStr ''abc'')]])])
     = [[Some (JStr ''Producto'', TextT), Some (JStr ''Stock'', TextT)]]"
proof (intro conjI)
  show "detectColumnType rawRows c = detectColumnType (take 10 rawRows) c"
    by (rule detectColumnType_take)
  show n: "(detectColumnType rawRows c = NumberT) =
     ((\<exists>r \<in> set (take 10 rawRows). element r c \<notin> {JUndefined, JNull, JStr []}) \<and>
      (\<forall>r \<in> set (take 10 rawRows). element r c \<notin> {JUndefined, JNull, JStr []} \<longrightarrow>
          \<not> isNaN (Number (element r c))))"
    by (rule detectColumnType_iff)
  show "(detectColumnType rawRows c = TextT) =
     (\<not> ((\<exists>r \<in> set (take 10 rawRows). element r c \<notin> {JUndefined, JNull, JStr []}) \<and>
         (\<forall>r \<in> set (take 10 rawRows). element r c \<notin> {JUndefined, JNull, JStr []} \<longrightarrow>
             \<not> isNaN (Number (element r c)))))"
    unfolding n [symmetric] by (cases "detectColumnType rawRows c") simp_all
  show "map (\<lambda>sh. (isheet_name sh, map (map_option (\<lambda>col. (icol_name col, icol_type col))) (icolumns sh)))
     (parseExcelFile uuid workbook) =
   map (\<lambda>(sheetName, jsonData).
          (sheetName,
           map (\<lambda>(h, c). map_option (\<lambda>v. (or_else v (JStr sinTitulo), detectColumnType (tl jsonData) c)) h)
               (zip (hd jsonData) [0..<length (hd jsonData)])))
       (filter (\<lambda>(sheetName, jsonData). jsonData \<noteq> []) workbook)"
    unfolding parseExcelFile_def by (rule parseSheets_kinds)
  show "map (\<lambda>sh. map (map_option (\<lambda>col. (icol_name col, icol_type col))) (icolumns sh))
     (parseExcelFile uuid
        [(''Hoja1'', [[Some (JStr ''Producto''), Some (JStr ''Stock'')],
                     [Some (JStr ''A''), Some (JStr ''50'')],
                     [Some (JStr ''B''), Some (JStr ''abc'')]])])
     = [[Some (JStr ''Producto'', TextT), Some (JStr ''Stock'', TextT)]]"
    by (simp add: parseExcelFile_def parseSheet_def or_else_def
          detectColumnType_def element_def isNaN_def Let_def
          StringToNumber_letters StringToNumber_50 StringToNumber_abc)
qed

theorem import_type_inference_witness:
  "element [Some (JStr ''A''), Some (JStr ''50'')] 1 \<notin> {JUndefined, JNull, JStr []} \<and>
   \<not> isNaN (Number (element [Some (JStr ''A''), Some (JStr ''50'')] 1)) \<and>
   \<not> isNaN (Number (element [Some (JStr ''B''), Some (JStr ''7'')] 1)) \<and>
   detectColumnType [[Some (JStr ''A''), Some (JStr ''50'')], [Some (JStr ''B''), Some (JStr ''7'')]] 1 = NumberT \<and>
   map (\<lambda>sh. (isheet_name sh, map (map_option (\<lambda>col. (icol_name col, icol_type col))) (icolumns sh)))
     (parseExcelFile toString_nat
        [(''Vacia'', []),
         (''Hoja1'', [[Some (JStr ''Producto''), None, Some (JStr ''Stock''), Some (JNum (Fin 2024))],
                     [Some (JStr ''A''), Some (JStr ''x''), Some (JStr ''50'')],
                     [Some (JStr ''B''), None, Some (JStr ''7'')]])])
     = [(''Hoja1'', [Some (JStr ''Producto'', TextT), None, Some (JStr ''Stock'', NumberT),
                    Some (JNum (Fin 2024), TextT)])]"
proof -
  let ?rows = "[[Some (JStr ''A''), Some (JStr ''50'')], [Some (JStr ''B''), Some (JStr ''7'')]]"
  let ?data = "[[Some (JStr ''A''), Some (JStr ''x''), Some (JStr ''50'')],
                [Some (JStr ''B''), None, Some (JStr ''7'')]]"
  let ?wb = "[(''Vacia'', []),
              (''Hoja1'', [Some (JStr ''Producto''), None, Some (JStr ''Stock''), Some (JNum (Fin 2024))]
                          # ?data)]"
  note t = import_type_inference [of ?rows 1 toString_nat ?wb]
  have e: "element [Some (JStr ''A''), Some (JStr ''50'')] 1 \<notin> {JUndefined, JNull, JStr []}"
    "\<not> isNaN (Number (element [Some (JStr ''A''), Some (JStr ''50'')] 1))"
    "\<not> isNaN (Number (element [Some (JStr ''B''), Some (JStr ''7'')] 1))"
    by (simp_all add: element_def isNaN_def StringToNumber_50 StringToNumber_7)
  from t e have n: "detectColumnType ?rows 1 = NumberT"
    by simp
  have k: "detectColumnType ?data 0 = TextT" "detectColumnType ?data (Suc (Suc 0)) = NumberT"
    "detectColumnType ?data (Suc (Suc (Suc 0))) = TextT"
    by (simp_all add: detectColumnType_def element_def isNaN_def
          StringToNumber_50 StringToNumber_7 StringToNumber_letters)
  from t have "map (\<lambda>sh. (isheet_name sh,
         map (map_option (\<lambda>col. (icol_name col, icol_type col))) (icolumns sh)))
     (parseExcelFile toString_nat ?wb)
     = [(''Hoja1'', [Some (JStr ''Producto'', TextT), None, Some (JStr ''Stock'', NumberT),
                    Some (JNum (Fin 2024), TextT)])]"
    by (simp add: k or_else_def)
  with e n show ?thesis by simp
qed

section \<open>Import: cell values of a number column\<close>










end
